theory Spec2Isabelle
  imports Complex_Main "HOL-Library.Multiset"
begin

section \<open>Errors\<close>

text \<open>
  The exceptions the modelled functions raise, one constructor per raise site:
  \<^item> \<open>TypeError\<close>: a call that leaves a required positional parameter unbound, and the
    \<^verbatim>\<open>'%d' % index\<close> formatting of a string in \<^verbatim>\<open>DataSet.get\<close>;
  \<^item> \<open>ComponentDoesNotExist q\<close>: \<^verbatim>\<open>Exception("qth component %d does not exist" % (q))\<close>;
  \<^item> \<open>ParameterDoesNotExist key\<close>: \<^verbatim>\<open>Exception("parameter name '%s' does not exist" % (key))\<close>;
  \<^item> \<open>NotInList\<close>: the \<^verbatim>\<open>ValueError\<close> of \<^verbatim>\<open>list.remove\<close> on an absent element;
  \<^item> \<open>ChannelDoesNotExist index\<close>: \<^verbatim>\<open>ValueError("channel '%d' does not exist in DataSet" % (index))\<close>;
  \<^item> \<open>IndexError\<close>: a list subscript out of range.
\<close>

datatype error =
    TypeError
  | ComponentDoesNotExist int
  | ParameterDoesNotExist string
  | NotInList
  | ChannelDoesNotExist int
  | IndexError

section \<open>The parameter store of \<^verbatim>\<open>model.py\<close>\<close>

text \<open>
  The attributes that \<^verbatim>\<open>model.__init__\<close> sets. \<^verbatim>\<open>self.params\<close> is a Python list of
  dictionaries from parameter names to values; \<^verbatim>\<open>self.fixed_params\<close> is a Python list of
  names, in which order and duplicates are kept. The attribute \<^verbatim>\<open>name\<close> is called
  \<open>model_name\<close> here, since the channels of a data set have a \<open>name\<close> as well.
\<close>

record ('d, 'm, 'v) model =
  model_name :: string
  data :: 'd
  model :: "'m option"
  Q :: int
  params :: "(string \<rightharpoonup> 'v) list"
  fixed_params :: "string list"

text \<open>
  \<^verbatim>\<open>def __init__(self, name, data, Q)\<close>: all three parameters are required. An argument
  that the caller does not pass is \<open>None\<close> here, and Python raises \<^verbatim>\<open>TypeError\<close> before
  the body runs.
\<close>

definition model_init ::
  "string option \<Rightarrow> 'd option \<Rightarrow> int option \<Rightarrow> error + ('d, 'm, 'v) model" where
  "model_init name_arg data_arg Q_arg =
     (case (name_arg, data_arg, Q_arg) of
        (Some nm, Some d, Some q) \<Rightarrow>
          Inr \<lparr>model_name = nm, data = d, model = None, Q = q, params = [], fixed_params = []\<rparr>
      | _ \<Rightarrow> Inl TypeError)"

text \<open>
  \<^verbatim>\<open>MOSM.__init__(self, dataset, Q=1, name="MOSM", ...)\<close> starts with
  \<^verbatim>\<open>model.__init__(self, name, dataset)\<close>, which passes no \<^verbatim>\<open>Q\<close>, then sets
  \<^verbatim>\<open>self.Q = Q\<close> and builds the kernels. The kernel classes and \<^verbatim>\<open>model._build\<close> are
  not part of the sources; everything after \<^verbatim>\<open>self.Q = Q\<close> is the parameter \<open>build\<close>.
\<close>

definition MOSM_init ::
  "(('d, 'm, 'v) model \<Rightarrow> error + ('d, 'm, 'v) model) \<Rightarrow> 'd \<Rightarrow> int \<Rightarrow> string
     \<Rightarrow> error + ('d, 'm, 'v) model" where
  "MOSM_init build dataset Q_arg name_arg =
     (case model_init (Some name_arg) (Some dataset) None of
        Inl e \<Rightarrow> Inl e
      | Inr self \<Rightarrow> build (self\<lparr>Q := Q_arg\<rparr>))"

text \<open>
  \<^verbatim>\<open>set_param(self, q, key, val)\<close>: the two guards, then the store into the dictionary of
  component \<open>q\<close>. After the first guard \<open>0 \<le> q < len(self.params)\<close>, so the subscript
  \<^verbatim>\<open>self.params[q]\<close> is in range.
\<close>

definition set_param ::
  "('d, 'm, 'v) model \<Rightarrow> int \<Rightarrow> string \<Rightarrow> 'v \<Rightarrow> error + ('d, 'm, 'v) model" where
  "set_param self q key val =
     (if q < 0 \<or> int (length (params self)) \<le> q then Inl (ComponentDoesNotExist q)
      else if (params self ! nat q) key = None then Inl (ParameterDoesNotExist key)
      else Inr (self\<lparr>params := (params self)[nat q := (params self ! nat q)(key \<mapsto> val)]\<rparr>))"

text \<open>\<^verbatim>\<open>fix_params\<close> appends to the list; \<^verbatim>\<open>unfix_params\<close> calls \<^verbatim>\<open>list.remove\<close>, which
  deletes the first occurrence and raises when there is none.\<close>

definition fix_params :: "('d, 'm, 'v) model \<Rightarrow> string \<Rightarrow> ('d, 'm, 'v) model" where
  "fix_params self key = self\<lparr>fixed_params := fixed_params self @ [key]\<rparr>"

definition unfix_params :: "('d, 'm, 'v) model \<Rightarrow> string \<Rightarrow> error + ('d, 'm, 'v) model" where
  "unfix_params self key =
     (if key \<in> set (fixed_params self)
      then Inr (self\<lparr>fixed_params := remove1 key (fixed_params self)\<rparr>)
      else Inl NotInList)"

section \<open>The fixed parameters in \<^verbatim>\<open>model.build\<close>\<close>

text \<open>
  After it has created the GP model, \<^verbatim>\<open>build\<close> runs over \<^verbatim>\<open>self.fixed_params\<close> and
  switches the named parameter of every kernel to not trainable; a name that a kernel does
  not have raises. A kernel is seen here as the map from its parameter names to their
  \<^verbatim>\<open>trainable\<close> flags; \<open>Combination\<close> is a kernel with a \<^verbatim>\<open>kernels\<close> attribute (a sum
  of kernels), \<open>Kernel\<close> one without.
\<close>

type_synonym kernel = "string \<rightharpoonup> bool"

datatype kern = Kernel kernel | Combination "kernel list"

text \<open>\<^verbatim>\<open>if hasattr(kern, key): getattr(kern, key).trainable = False else: raise ...\<close>\<close>

definition set_untrainable :: "string \<Rightarrow> kernel \<Rightarrow> error + kernel" where
  "set_untrainable key k =
     (if k key \<noteq> None then Inr (k(key \<mapsto> False)) else Inl (ParameterDoesNotExist key))"

text \<open>\<^verbatim>\<open>for kern in self.model.kern.kernels: ...\<close>, stopping at the first raise.\<close>

fun set_untrainable_each :: "string \<Rightarrow> kernel list \<Rightarrow> error + kernel list" where
  "set_untrainable_each key [] = Inr []"
| "set_untrainable_each key (k # ks) =
     (case set_untrainable key k of
        Inl e \<Rightarrow> Inl e
      | Inr k' \<Rightarrow>
          (case set_untrainable_each key ks of Inl e \<Rightarrow> Inl e | Inr ks' \<Rightarrow> Inr (k' # ks')))"

text \<open>The body of \<^verbatim>\<open>for key in self.fixed_params\<close>: the two branches of
  \<^verbatim>\<open>hasattr(self.model.kern, 'kernels')\<close>.\<close>

fun fix_key :: "string \<Rightarrow> kern \<Rightarrow> error + kern" where
  "fix_key key (Combination ks) =
     (case set_untrainable_each key ks of Inl e \<Rightarrow> Inl e | Inr ks' \<Rightarrow> Inr (Combination ks'))"
| "fix_key key (Kernel k) =
     (case set_untrainable key k of Inl e \<Rightarrow> Inl e | Inr k' \<Rightarrow> Inr (Kernel k'))"

fun apply_fixed_params :: "string list \<Rightarrow> kern \<Rightarrow> error + kern" where
  "apply_fixed_params [] kern = Inr kern"
| "apply_fixed_params (key # keys) kern =
     (case fix_key key kern of Inl e \<Rightarrow> Inl e | Inr kern' \<Rightarrow> apply_fixed_params keys kern')"

text \<open>
  Two notions used only to state what the loop computes: a kernel has a parameter, and
  the kernel with all parameters of a set of names switched to not trainable.
\<close>

fun has_parameter :: "string \<Rightarrow> kern \<Rightarrow> bool" where
  "has_parameter key (Kernel k) \<longleftrightarrow> k key \<noteq> None"
| "has_parameter key (Combination ks) \<longleftrightarrow> (\<forall>k \<in> set ks. k key \<noteq> None)"

fun untrainable_in :: "string set \<Rightarrow> kern \<Rightarrow> kern" where
  "untrainable_in S (Kernel k) = Kernel (\<lambda>x. if x \<in> S then Some False else k x)"
| "untrainable_in S (Combination ks) =
     Combination (map (\<lambda>k x. if x \<in> S then Some False else k x) ks)"

section \<open>\<^verbatim>\<open>DataSet.get\<close> of \<^verbatim>\<open>dataset.py\<close>\<close>

text \<open>A channel (\<^verbatim>\<open>Data\<close>) is known here by its name; the rest of it is \<open>payload\<close>.\<close>

record 'p Data =
  name :: string
  payload :: 'p

datatype index = IntIndex int | StrIndex string

text \<open>
  \<^verbatim>\<open>self.channels[index]\<close> for a Python integer: a negative index counts from the end,
  and an index outside \<open>[-len, len)\<close> raises \<^verbatim>\<open>IndexError\<close>.
\<close>

definition subscript :: "'a list \<Rightarrow> int \<Rightarrow> error + 'a" where
  "subscript xs k =
     (if 0 \<le> k \<and> k < int (length xs) then Inr (xs ! nat k)
      else if k < 0 \<and> - int (length xs) \<le> k then Inr (xs ! nat (int (length xs) + k))
      else Inl IndexError)"

text \<open>
  \<^verbatim>\<open>DataSet.get(self, index)\<close>. An integer below \<^verbatim>\<open>len(self.channels)\<close> is used as a
  subscript; a string is looked up among the names, first match first. Everything else
  reaches the final \<^verbatim>\<open>raise\<close>, whose message is formatted with \<^verbatim>\<open>'%d'\<close>: for an
  integer that is the \<^verbatim>\<open>ValueError\<close>, for a string the formatting itself raises
  \<^verbatim>\<open>TypeError\<close>.
\<close>

definition get :: "'p Data list \<Rightarrow> index \<Rightarrow> error + 'p Data" where
  "get channels idx =
     (case idx of
        IntIndex k \<Rightarrow>
          (if k < int (length channels) then subscript channels k
           else Inl (ChannelDoesNotExist k))
      | StrIndex s \<Rightarrow>
          (case find (\<lambda>channel. name channel = s) channels of
             Some channel \<Rightarrow> Inr channel
           | None \<Rightarrow> Inl TypeError))"

section \<open>Floating-point values\<close>

text \<open>
  The entries of the numpy arrays. A value is a real number or one of the three special
  values of IEEE 754 arithmetic. Arithmetic on real numbers is exact here: rounding,
  overflow and the sign of zero are not modelled. The special values arise and propagate
  as in IEEE 754: \<open>0 / 0\<close> is \<open>NaN\<close>, a nonzero number over zero is an infinity, and a
  \<open>NaN\<close> operand gives \<open>NaN\<close>. numpy does not raise on any of these. Since a
  double rounds where these operations do not, the general results on the arrays are
  stated with the operations themselves, in the order in which the code applies them,
  and not with the real number they evaluate to; the examples use numbers that a double
  holds exactly.
\<close>

datatype npfloat = Fin real | PInf | NInf | NaN

definition inf_of :: "bool \<Rightarrow> npfloat" where
  "inf_of positive = (if positive then PInf else NInf)"

instantiation npfloat :: "{plus, minus, uminus, times, inverse}"
begin

fun uminus_npfloat :: "npfloat \<Rightarrow> npfloat" where
  "uminus_npfloat (Fin a) = Fin (- a)"
| "uminus_npfloat PInf = NInf"
| "uminus_npfloat NInf = PInf"
| "uminus_npfloat NaN = NaN"

fun plus_npfloat :: "npfloat \<Rightarrow> npfloat \<Rightarrow> npfloat" where
  "plus_npfloat NaN y = NaN"
| "plus_npfloat x NaN = NaN"
| "plus_npfloat (Fin a) (Fin b) = Fin (a + b)"
| "plus_npfloat (Fin a) y = y"
| "plus_npfloat x (Fin b) = x"
| "plus_npfloat PInf PInf = PInf"
| "plus_npfloat NInf NInf = NInf"
| "plus_npfloat PInf NInf = NaN"
| "plus_npfloat NInf PInf = NaN"

definition minus_npfloat :: "npfloat \<Rightarrow> npfloat \<Rightarrow> npfloat" where
  "minus_npfloat x y = x + (- y)"

fun times_npfloat :: "npfloat \<Rightarrow> npfloat \<Rightarrow> npfloat" where
  "times_npfloat NaN y = NaN"
| "times_npfloat x NaN = NaN"
| "times_npfloat (Fin a) (Fin b) = Fin (a * b)"
| "times_npfloat (Fin a) PInf = (if a = 0 then NaN else inf_of (0 < a))"
| "times_npfloat (Fin a) NInf = (if a = 0 then NaN else inf_of (a < 0))"
| "times_npfloat PInf (Fin b) = (if b = 0 then NaN else inf_of (0 < b))"
| "times_npfloat NInf (Fin b) = (if b = 0 then NaN else inf_of (b < 0))"
| "times_npfloat PInf PInf = PInf"
| "times_npfloat NInf NInf = PInf"
| "times_npfloat PInf NInf = NInf"
| "times_npfloat NInf PInf = NInf"

fun divide_npfloat :: "npfloat \<Rightarrow> npfloat \<Rightarrow> npfloat" where
  "divide_npfloat NaN y = NaN"
| "divide_npfloat x NaN = NaN"
| "divide_npfloat (Fin a) (Fin b) =
     (if b \<noteq> 0 then Fin (a / b) else if a = 0 then NaN else inf_of (0 < a))"
| "divide_npfloat (Fin a) y = Fin 0"
| "divide_npfloat PInf (Fin b) = inf_of (0 \<le> b)"
| "divide_npfloat NInf (Fin b) = inf_of (b < 0)"
| "divide_npfloat x y = NaN"

definition inverse_npfloat :: "npfloat \<Rightarrow> npfloat" where
  "inverse_npfloat x = divide (Fin 1) x"

instance ..

end

text \<open>\<^verbatim>\<open>np.exp\<close>, \<^verbatim>\<open>np.sqrt\<close> (\<open>NaN\<close> on a negative number) and \<^verbatim>\<open>np.cos\<close>.\<close>

fun np_exp :: "npfloat \<Rightarrow> npfloat" where
  "np_exp (Fin a) = Fin (exp a)"
| "np_exp PInf = PInf"
| "np_exp NInf = Fin 0"
| "np_exp NaN = NaN"

fun np_sqrt :: "npfloat \<Rightarrow> npfloat" where
  "np_sqrt (Fin a) = (if 0 \<le> a then Fin (sqrt a) else NaN)"
| "np_sqrt PInf = PInf"
| "np_sqrt NInf = NaN"
| "np_sqrt NaN = NaN"

fun np_cos :: "npfloat \<Rightarrow> npfloat" where
  "np_cos (Fin a) = Fin (cos a)"
| "np_cos x = NaN"

text \<open>
  \<^verbatim>\<open>a.sum()\<close>, \<^verbatim>\<open>a.dot(b)\<close> of two vectors, \<^verbatim>\<open>np.subtract.outer(a, b)\<close>, whose entry
  \<open>[i, j]\<close> is \<open>a[i] - b[j]\<close>, and the column \<^verbatim>\<open>A[:, i]\<close> of a matrix stored by rows.
\<close>

definition np_sum :: "npfloat list \<Rightarrow> npfloat" where
  "np_sum xs = foldl (+) (Fin 0) xs"

definition dot :: "npfloat list \<Rightarrow> npfloat list \<Rightarrow> npfloat" where
  "dot a b = np_sum (map2 (*) a b)"

definition subtract_outer :: "npfloat list \<Rightarrow> npfloat list \<Rightarrow> npfloat list list" where
  "subtract_outer a b = map (\<lambda>x. map (\<lambda>y. x - y) b) a"

definition column :: "'a list list \<Rightarrow> nat \<Rightarrow> 'a list" where
  "column A i = map (\<lambda>row. row ! i) A"

section \<open>\<^verbatim>\<open>MOSM.get_cross_params\<close> of \<^verbatim>\<open>mosm.py\<close>\<close>

text \<open>
  \<^verbatim>\<open>get_cross_params\<close> reads five keys of every dictionary \<^verbatim>\<open>self.params[q]\<close>; a
  \<open>component\<close> holds the arrays under these keys. With \<open>m\<close> channels and \<open>d\<close> input
  dimensions, \<open>magnitude\<close> and \<open>phase\<close> have shape \<open>(m)\<close>, and \<open>mean\<close>, \<open>variance\<close>
  and \<open>delay\<close> have shape \<open>(d, m)\<close>: the code subscripts them \<^verbatim>\<open>[:, i]\<close> and \<^verbatim>\<open>[n, :]\<close>.
\<close>

record component =
  magnitude :: "npfloat list"
  mean :: "npfloat list list"
  variance :: "npfloat list list"
  phase :: "npfloat list"
  delay :: "npfloat list list"

definition well_shaped :: "nat \<Rightarrow> nat \<Rightarrow> component \<Rightarrow> bool" where
  "well_shaped m d c \<longleftrightarrow>
     length (magnitude c) = m \<and> length (phase c) = m \<and>
     length (mean c) = d \<and> (\<forall>row \<in> set (mean c). length row = m) \<and>
     length (variance c) = d \<and> (\<forall>row \<in> set (variance c). length row = m) \<and>
     length (delay c) = d \<and> (\<forall>row \<in> set (delay c). length row = m)"

definition well_shaped_store :: "nat \<Rightarrow> nat \<Rightarrow> nat \<Rightarrow> component list \<Rightarrow> bool" where
  "well_shaped_store m d Qn ps \<longleftrightarrow>
     Qn \<le> length ps \<and> (\<forall>q < Qn. well_shaped m d (ps ! q))"

text \<open>
  The result: the dictionary \<^verbatim>\<open>cross_params\<close> with its five arrays. \<open>cross_covariance\<close>,
  \<open>cross_mean\<close> and \<open>cross_delay\<close> are subscripted \<open>[i][j][n][q]\<close>, \<open>cross_magnitude\<close>
  and \<open>cross_phase\<close> are subscripted \<open>[i][j][q]\<close>.
\<close>

record cross_params =
  cross_covariance :: "npfloat list list list list"
  cross_mean :: "npfloat list list list list"
  cross_magnitude :: "npfloat list list list"
  cross_delay :: "npfloat list list list list"
  cross_phase :: "npfloat list list list"

text \<open>
  The body of the loop over \<open>i\<close> and \<open>j\<close>, for one component:
  \<^verbatim>\<open>
  sv = var_i + var_j
  cross_params['covariance'][i, j, :, q] = 2 * (var_i * var_j) / sv
  cross_mean_num = var_i.dot(mu_j) + var_j.dot(mu_i)
  cross_params['mean'][i, j, :, q] = cross_mean_num / sv
  exp_term = -1/4 * ((mu_i - mu_j)**2 / sv).sum()
  cross_params['magnitude'][i, j, q] = w_i * w_j * np.exp(exp_term)
  \<close>
  \<open>covariance_ij\<close> and \<open>mean_ij\<close> are the vectors assigned to the slice \<open>[i, j, :, q]\<close>;
  \<open>cross_mean_num\<close> is a scalar, divided by each entry of \<open>sv\<close>. The quotient
  \<^verbatim>\<open>-1/4\<close> is \<open>- 0.25\<close>: the package is Python 3 (\<^verbatim>\<open>model.py\<close> uses \<^verbatim>\<open>nonlocal\<close>),
  where \<^verbatim>\<open>/\<close> is true division. \<^verbatim>\<open>**2\<close> is written as a product.
\<close>

definition covariance_ij :: "component \<Rightarrow> nat \<Rightarrow> nat \<Rightarrow> npfloat list" where
  "covariance_ij c i j =
     (let var_i = column (variance c) i; var_j = column (variance c) j;
          sv = map2 (+) var_i var_j
      in map2 (/) (map (\<lambda>p. Fin 2 * p) (map2 (*) var_i var_j)) sv)"

definition mean_ij :: "component \<Rightarrow> nat \<Rightarrow> nat \<Rightarrow> npfloat list" where
  "mean_ij c i j =
     (let var_i = column (variance c) i; var_j = column (variance c) j;
          mu_i = column (mean c) i; mu_j = column (mean c) j;
          sv = map2 (+) var_i var_j;
          cross_mean_num = dot var_i mu_j + dot var_j mu_i
      in map (\<lambda>s. cross_mean_num / s) sv)"

definition magnitude_ij :: "component \<Rightarrow> nat \<Rightarrow> nat \<Rightarrow> npfloat" where
  "magnitude_ij c i j =
     (let var_i = column (variance c) i; var_j = column (variance c) j;
          mu_i = column (mean c) i; mu_j = column (mean c) j;
          w_i = magnitude c ! i; w_j = magnitude c ! j;
          sv = map2 (+) var_i var_j;
          exp_term = Fin (- 1 / 4) * np_sum (map2 (/) (map (\<lambda>x. x * x) (map2 (-) mu_i mu_j)) sv)
      in w_i * w_j * np_exp exp_term)"

text \<open>
  The whole function, with \<open>m = self.get_output_dims()\<close>, \<open>d = self.get_input_dims()\<close>
  (two methods that are not part of the sources, so \<open>m\<close> and \<open>d\<close> are parameters here),
  \<open>Qn = self.Q\<close> and \<open>ps = self.params\<close>. Every entry of the five arrays is assigned exactly once by the
  loops, from the parameters alone, so each array is written as the table of its entries.
  On a store that is not \<open>well_shaped_store\<close> numpy raises or broadcasts; the properties
  below are about well-shaped stores.
\<close>

definition get_cross_params :: "nat \<Rightarrow> nat \<Rightarrow> nat \<Rightarrow> component list \<Rightarrow> cross_params" where
  "get_cross_params m d Qn ps =
     \<lparr>cross_covariance =
        map (\<lambda>i. map (\<lambda>j. map (\<lambda>n. map (\<lambda>q. covariance_ij (ps ! q) i j ! n)
          [0..<Qn]) [0..<d]) [0..<m]) [0..<m],
      cross_mean =
        map (\<lambda>i. map (\<lambda>j. map (\<lambda>n. map (\<lambda>q. mean_ij (ps ! q) i j ! n)
          [0..<Qn]) [0..<d]) [0..<m]) [0..<m],
      cross_magnitude =
        map (\<lambda>i. map (\<lambda>j. map (\<lambda>q. magnitude_ij (ps ! q) i j)
          [0..<Qn]) [0..<m]) [0..<m],
      cross_delay =
        map (\<lambda>i. map (\<lambda>j. map (\<lambda>n. map (\<lambda>q.
            subtract_outer (delay (ps ! q) ! n) (delay (ps ! q) ! n) ! i ! j)
          [0..<Qn]) [0..<d]) [0..<m]) [0..<m],
      cross_phase =
        map (\<lambda>i. map (\<lambda>j. map (\<lambda>q.
            subtract_outer (phase (ps ! q)) (phase (ps ! q)) ! i ! j)
          [0..<Qn]) [0..<m]) [0..<m]\<rparr>"

section \<open>The correlation matrix of \<^verbatim>\<open>MOSM.plot_correlations\<close>\<close>

text \<open>
  The part of \<^verbatim>\<open>plot_correlations\<close> that computes \<^verbatim>\<open>corr_coef_matrix\<close> from the cross
  parameters, all read at input dimension \<open>0\<close>:
  \<^verbatim>\<open>
  alpha = magn / np.sqrt(2 * np.pi * cov)
  np.fill_diagonal(corr_coef_matrix, np.diagonal(alpha.sum(2)))
  for i in range(m):
      for j in range(m):
          if i!=j:
              corr = np.exp(-0.5 *  delay[i, j, :]**2 * cov[i, j, :])
              corr *= np.cos(delay[i, j, :] * mean[i, j, :] + phase[i, j, :])
              corr_coef_matrix[i, j] = (alpha[i, j, :] * corr).sum()
          norm = np.sqrt(np.diagonal(alpha.sum(2))[i]) * np.sqrt(np.diagonal(alpha.sum(2))[j])
          corr_coef_matrix[i, j] /= norm
  \<close>
  The division by \<open>norm\<close> is outside the \<^verbatim>\<open>if\<close>: it is applied to every entry, the
  diagonal ones too.
\<close>

definition alpha :: "cross_params \<Rightarrow> nat \<Rightarrow> nat \<Rightarrow> nat \<Rightarrow> npfloat" where
  "alpha cp i j q =
     cross_magnitude cp ! i ! j ! q / np_sqrt (Fin 2 * Fin pi * cross_covariance cp ! i ! j ! 0 ! q)"

text \<open>\<^verbatim>\<open>np.diagonal(alpha.sum(2))[i]\<close>\<close>

definition alpha_sum_diagonal :: "nat \<Rightarrow> cross_params \<Rightarrow> nat \<Rightarrow> npfloat" where
  "alpha_sum_diagonal Qn cp i = np_sum (map (\<lambda>q. alpha cp i i q) [0..<Qn])"

definition corr :: "cross_params \<Rightarrow> nat \<Rightarrow> nat \<Rightarrow> nat \<Rightarrow> npfloat" where
  "corr cp i j q =
     np_exp (Fin (- 0.5) * (cross_delay cp ! i ! j ! 0 ! q * cross_delay cp ! i ! j ! 0 ! q)
               * cross_covariance cp ! i ! j ! 0 ! q)
     * np_cos (cross_delay cp ! i ! j ! 0 ! q * cross_mean cp ! i ! j ! 0 ! q
                 + cross_phase cp ! i ! j ! q)"

definition corr_coef_matrix :: "nat \<Rightarrow> nat \<Rightarrow> cross_params \<Rightarrow> npfloat list list" where
  "corr_coef_matrix m Qn cp =
     map (\<lambda>i. map (\<lambda>j.
       (let entry = (if i \<noteq> j then np_sum (map (\<lambda>q. alpha cp i j q * corr cp i j q) [0..<Qn])
                     else alpha_sum_diagonal Qn cp i);
            norm = np_sqrt (alpha_sum_diagonal Qn cp i) * np_sqrt (alpha_sum_diagonal Qn cp j)
        in entry / norm)) [0..<m]) [0..<m]"

text \<open>
  The matrix as \<^verbatim>\<open>plot_correlations\<close> computes it from the parameters of the model. The
  drawing that follows in the source is not modelled.
\<close>

definition plot_correlations :: "nat \<Rightarrow> nat \<Rightarrow> nat \<Rightarrow> component list \<Rightarrow> npfloat list list" where
  "plot_correlations m d Qn ps = corr_coef_matrix m Qn (get_cross_params m d Qn ps)"

section \<open>Example stores\<close>

text \<open>A store whose component \<open>Q\<close> holds the noise vector, as \<^verbatim>\<open>estimate_params\<close>
  expects when it ends with \<^verbatim>\<open>self.set_param(self.Q, 'noise', noise)\<close>.\<close>

definition store_with_noise :: "(unit, unit, real list) model" where
  "store_with_noise =
     \<lparr>model_name = ''MOSM'', data = (), model = None, Q = 1,
      params = [[''magnitude'' \<mapsto> [1]], [''noise'' \<mapsto> [0]]], fixed_params = []\<rparr>"

text \<open>A model in which \<open>variance\<close> is fixed already, before another parameter.\<close>

definition store_with_fixed :: "(unit, unit, real list) model" where
  "store_with_fixed =
     \<lparr>model_name = ''MOSM'', data = (), model = None, Q = 1,
      params = [], fixed_params = [''variance'', ''mean'']\<rparr>"

text \<open>Two channels, one input dimension, one component of variance zero in both
  channels.\<close>

definition degenerate_store :: "component list" where
  "degenerate_store =
     [\<lparr>magnitude = [Fin 1, Fin 1], mean = [[Fin 1, Fin 3]], variance = [[Fin 0, Fin 0]],
       phase = [Fin 0, Fin 1], delay = [[Fin 0, Fin 2]]\<rparr>]"

text \<open>Two channels, two input dimensions, one component.\<close>

definition two_dim_store :: "component list" where
  "two_dim_store =
     [\<lparr>magnitude = [Fin 1, Fin 2], mean = [[Fin 1, Fin 5], [Fin 3, Fin 7]],
       variance = [[Fin 1, Fin 3], [Fin 1, Fin 1]],
       phase = [Fin 0, Fin 1], delay = [[Fin 0, Fin 2], [Fin 1, Fin 4]]\<rparr>]"

text \<open>Two channels with the same means, two input dimensions, one component.\<close>

definition equal_means_store :: "component list" where
  "equal_means_store =
     [\<lparr>magnitude = [Fin 2, Fin 3], mean = [[Fin 1, Fin 1], [Fin 3, Fin 3]],
       variance = [[Fin 1, Fin 3], [Fin 1, Fin 1]],
       phase = [Fin 0, Fin 1], delay = [[Fin 0, Fin 2], [Fin 1, Fin 4]]\<rparr>]"

text \<open>One channel, one input dimension, one component.\<close>

definition one_channel_store :: "component list" where
  "one_channel_store =
     [\<lparr>magnitude = [Fin 2], mean = [[Fin 0]], variance = [[Fin 2]],
       phase = [Fin 0], delay = [[Fin 0]]\<rparr>]"

text \<open>A data set of two channels.\<close>

definition two_channels :: "unit Data list" where
  "two_channels = [\<lparr>name = ''A'', payload = ()\<rparr>, \<lparr>name = ''B'', payload = ()\<rparr>]"

section \<open>Lemmas on the parameter store\<close>

lemma set_remove1_append_self: "set (remove1 k (xs @ [k])) = set xs"
  by (induction xs) auto

lemma mset_remove1_append_self: "mset (remove1 k (xs @ [k])) = mset xs"
  by simp

lemma set_untrainable_each_eq:
  "set_untrainable_each key ks =
     (if \<forall>k \<in> set ks. k key \<noteq> None then Inr (map (\<lambda>k. k(key \<mapsto> False)) ks)
      else Inl (ParameterDoesNotExist key))"
  by (induction ks) (auto simp: set_untrainable_def)

lemma fix_key_eq:
  "fix_key key kern =
     (if has_parameter key kern then Inr (untrainable_in {key} kern)
      else Inl (ParameterDoesNotExist key))"
proof (cases kern)
  case (Kernel k)
  then show ?thesis
    by (auto simp: set_untrainable_def fun_upd_def)
next
  case (Combination ks)
  have "map (\<lambda>k. k(key \<mapsto> False)) ks = map (\<lambda>k x. if x \<in> {key} then Some False else k x) ks"
    by (simp add: fun_upd_def)
  with Combination show ?thesis
    by (simp add: set_untrainable_each_eq)
qed

lemma has_parameter_untrainable_in:
  "has_parameter key kern \<Longrightarrow>
   has_parameter key' (untrainable_in {key} kern) \<longleftrightarrow> has_parameter key' kern"
  by (cases kern) auto

lemma untrainable_in_twice:
  "untrainable_in S (untrainable_in T kern) = untrainable_in (T \<union> S) kern"
  by (cases kern) (auto simp: fun_eq_iff)

text \<open>The loop of \<^verbatim>\<open>build\<close> succeeds exactly when every kernel has every fixed name, and
  its result depends on the set of fixed names only.\<close>

lemma apply_fixed_params_Inr:
  "apply_fixed_params keys kern = Inr kern' \<longleftrightarrow>
     (\<forall>key \<in> set keys. has_parameter key kern) \<and>
     kern' = untrainable_in (set keys) kern"
proof (induction keys arbitrary: kern)
  case Nil
  show ?case by (cases kern) (auto simp: fun_eq_iff map_idI)
next
  case (Cons key keys)
  show ?case
  proof (cases "has_parameter key kern")
    case False
    then show ?thesis by (auto simp: fix_key_eq)
  next
    case True
    then show ?thesis
      using Cons.IH [of "untrainable_in {key} kern"]
      by (auto simp: fix_key_eq has_parameter_untrainable_in untrainable_in_twice)
  qed
qed

section \<open>Lemmas on the arrays\<close>

lemma column_nth: "n < length A \<Longrightarrow> column A i ! n = A ! n ! i"
  by (simp add: column_def)

lemma length_column: "length (column A i) = length A"
  by (simp add: column_def)

lemma column_single_row: "length A = 1 \<Longrightarrow> column A i = [A ! 0 ! i]"
  by (cases A) (simp_all add: column_def)

lemma foldl_plus_Fin: "foldl (+) (Fin a) (map Fin xs) = Fin (a + sum_list xs)"
  by (induction xs arbitrary: a) (simp_all add: add.assoc)

lemma zero_plus_npfloat: "Fin 0 + x = x"
  by (cases x) simp_all

lemma np_sum_Fin: "np_sum (map Fin xs) = Fin (sum_list xs)"
  by (simp add: np_sum_def foldl_plus_Fin)

lemma sum_list_upt_lessThan: "sum_list (map f [0..<d]) = (\<Sum>n<d. f n)"
  by (simp add: interv_sum_list_conv_sum_set_nat atLeast0LessThan)

lemma np_sum_Fin_upt:
  assumes "length xs = d" "\<forall>n<d. xs ! n = Fin (f n)"
  shows "np_sum xs = Fin (\<Sum>n<d. f n)"
proof -
  have "xs = map Fin (map f [0..<d])"
    using assms by (intro nth_equalityI) simp_all
  then show ?thesis
    by (simp only: np_sum_Fin sum_list_upt_lessThan)
qed

lemma dot_Fin:
  assumes "length a = d" "length b = d"
    and "\<forall>n<d. a ! n = Fin (f n)" "\<forall>n<d. b ! n = Fin (g n)"
  shows "dot a b = Fin (\<Sum>n<d. f n * g n)"
  unfolding dot_def using assms by (intro np_sum_Fin_upt) simp_all

lemma well_shaped_storeD:
  "well_shaped_store m d Qn ps \<Longrightarrow> q < Qn \<Longrightarrow> well_shaped m d (ps ! q)"
  by (simp add: well_shaped_store_def)

lemma well_shaped_rows:
  assumes "well_shaped m d c" "n < d"
  shows "length (mean c ! n) = m" "length (variance c ! n) = m" "length (delay c ! n) = m"
  using assms by (simp_all add: well_shaped_def)

lemma well_shaped_degenerate_store: "well_shaped_store 2 1 1 degenerate_store"
  by (simp add: well_shaped_store_def well_shaped_def degenerate_store_def)

lemma well_shaped_two_dim_store: "well_shaped_store 2 2 1 two_dim_store"
  by (simp add: well_shaped_store_def well_shaped_def two_dim_store_def)

lemma well_shaped_equal_means_store: "well_shaped_store 2 2 1 equal_means_store"
  by (simp add: well_shaped_store_def well_shaped_def equal_means_store_def)

lemma well_shaped_one_channel_store: "well_shaped_store 1 1 1 one_channel_store"
  by (simp add: well_shaped_store_def well_shaped_def one_channel_store_def)

section \<open>The entries of the cross parameters\<close>

lemma covariance_ij_nth:
  "n < length (variance c) \<Longrightarrow>
   covariance_ij c i j ! n =
     Fin 2 * (variance c ! n ! i * variance c ! n ! j) / (variance c ! n ! i + variance c ! n ! j)"
  by (simp add: covariance_ij_def Let_def column_nth length_column)

lemma mean_ij_nth:
  "n < length (variance c) \<Longrightarrow>
   mean_ij c i j ! n =
     (dot (column (variance c) i) (column (mean c) j) + dot (column (variance c) j) (column (mean c) i))
       / (variance c ! n ! i + variance c ! n ! j)"
  by (simp add: mean_ij_def Let_def column_nth length_column)

lemma cross_covariance_nth:
  "i < m \<Longrightarrow> j < m \<Longrightarrow> n < d \<Longrightarrow> q < Qn \<Longrightarrow>
   cross_covariance (get_cross_params m d Qn ps) ! i ! j ! n ! q = covariance_ij (ps ! q) i j ! n"
  by (simp add: get_cross_params_def)

lemma cross_mean_nth:
  "i < m \<Longrightarrow> j < m \<Longrightarrow> n < d \<Longrightarrow> q < Qn \<Longrightarrow>
   cross_mean (get_cross_params m d Qn ps) ! i ! j ! n ! q = mean_ij (ps ! q) i j ! n"
  by (simp add: get_cross_params_def)

lemma cross_magnitude_nth:
  "i < m \<Longrightarrow> j < m \<Longrightarrow> q < Qn \<Longrightarrow>
   cross_magnitude (get_cross_params m d Qn ps) ! i ! j ! q = magnitude_ij (ps ! q) i j"
  by (simp add: get_cross_params_def)

lemma cross_phase_nth:
  "i < m \<Longrightarrow> j < m \<Longrightarrow> q < Qn \<Longrightarrow> length (phase (ps ! q)) = m \<Longrightarrow>
   cross_phase (get_cross_params m d Qn ps) ! i ! j ! q
     = phase (ps ! q) ! i - phase (ps ! q) ! j"
  by (simp add: get_cross_params_def subtract_outer_def)

lemma cross_delay_nth:
  "i < m \<Longrightarrow> j < m \<Longrightarrow> n < d \<Longrightarrow> q < Qn \<Longrightarrow> length (delay (ps ! q) ! n) = m \<Longrightarrow>
   cross_delay (get_cross_params m d Qn ps) ! i ! j ! n ! q
     = delay (ps ! q) ! n ! i - delay (ps ! q) ! n ! j"
  by (simp add: get_cross_params_def subtract_outer_def)

lemma magnitude_ij_formula:
  assumes "length (variance c) = d" "length (mean c) = d"
  shows "magnitude_ij c i j =
           magnitude c ! i * magnitude c ! j
             * np_exp (Fin (- 1 / 4)
                 * np_sum (map (\<lambda>n. (mean c ! n ! i - mean c ! n ! j) * (mean c ! n ! i - mean c ! n ! j)
                                      / (variance c ! n ! i + variance c ! n ! j)) [0..<d]))"
proof -
  have "map2 (/) (map (\<lambda>x. x * x) (map2 (-) (column (mean c) i) (column (mean c) j)))
               (map2 (+) (column (variance c) i) (column (variance c) j))
        = map (\<lambda>n. (mean c ! n ! i - mean c ! n ! j) * (mean c ! n ! i - mean c ! n ! j)
                                      / (variance c ! n ! i + variance c ! n ! j)) [0..<d]"
    using assms by (intro nth_equalityI) (simp_all add: length_column column_nth)
  then show ?thesis
    by (simp add: magnitude_ij_def Let_def)
qed

lemma mean_ij_Fin:
  assumes "length (variance c) = d" "length (mean c) = d" "n < d"
    and "\<forall>k<d. variance c ! k ! i = Fin (vi k) \<and> variance c ! k ! j = Fin (vj k)"
    and "\<forall>k<d. mean c ! k ! i = Fin (mi k) \<and> mean c ! k ! j = Fin (mj k)"
  shows "mean_ij c i j ! n =
           Fin ((\<Sum>k<d. vi k * mj k) + (\<Sum>k<d. vj k * mi k)) / Fin (vi n + vj n)"
proof -
  have 1: "dot (column (variance c) i) (column (mean c) j) = Fin (\<Sum>k<d. vi k * mj k)"
    using assms by (intro dot_Fin) (simp_all add: length_column column_nth)
  have 2: "dot (column (variance c) j) (column (mean c) i) = Fin (\<Sum>k<d. vj k * mi k)"
    using assms by (intro dot_Fin) (simp_all add: length_column column_nth)
  show ?thesis
    using assms(1,3,4) by (simp add: mean_ij_nth 1 2)
qed

text \<open>With one input dimension the inner products have one term each, and the cross-mean
  is \<open>(variance_i * mean_j + variance_j * mean_i) / sv\<close>.\<close>

lemma dot_single: "dot [a] [b] = a * b"
  by (simp add: dot_def np_sum_def zero_plus_npfloat)

lemma cross_mean_one_input_dimension:
  assumes "well_shaped_store m 1 Qn ps" "q < Qn" "i < m" "j < m"
  shows "cross_mean (get_cross_params m 1 Qn ps) ! i ! j ! 0 ! q
           = (variance (ps ! q) ! 0 ! i * mean (ps ! q) ! 0 ! j
                + variance (ps ! q) ! 0 ! j * mean (ps ! q) ! 0 ! i)
               / (variance (ps ! q) ! 0 ! i + variance (ps ! q) ! 0 ! j)"
proof -
  let ?c = "ps ! q"
  have ws: "well_shaped m 1 ?c"
    using assms(1,2) by (rule well_shaped_storeD)
  then have len: "length (variance ?c) = 1" "length (mean ?c) = 1"
    by (simp_all add: well_shaped_def)
  have "mean_ij ?c i j ! 0
          = (dot (column (variance ?c) i) (column (mean ?c) j)
               + dot (column (variance ?c) j) (column (mean ?c) i))
              / (variance ?c ! 0 ! i + variance ?c ! 0 ! j)"
    using len by (simp add: mean_ij_nth)
  then show ?thesis
    using assms(2-4) len by (simp add: cross_mean_nth column_single_row dot_single)
qed

text \<open>On the diagonal \<open>i = j\<close> the cross-phase and the cross-delay of a channel whose
  phase and delays are numbers are zero.\<close>

lemma diagonal_phase_delay:
  assumes "well_shaped_store m d Qn ps" "q < Qn" "i < m"
    and "phase (ps ! q) ! i = Fin p"
    and "\<forall>n<d. delay (ps ! q) ! n ! i = Fin (dl n)"
  shows "cross_phase (get_cross_params m d Qn ps) ! i ! i ! q = Fin 0 \<and>
         (\<forall>n<d. cross_delay (get_cross_params m d Qn ps) ! i ! i ! n ! q = Fin 0)"
proof -
  let ?c = "ps ! q"
  have ws: "well_shaped m d ?c"
    using assms(1,2) by (rule well_shaped_storeD)
  then have len: "length (phase ?c) = m"
    by (simp add: well_shaped_def)
  have ph: "cross_phase (get_cross_params m d Qn ps) ! i ! i ! q = Fin 0"
    using assms(2-4) len by (simp add: cross_phase_nth minus_npfloat_def)
  have dl: "cross_delay (get_cross_params m d Qn ps) ! i ! i ! n ! q = Fin 0" if "n < d" for n
    using that assms(2,3,5) well_shaped_rows(3) [OF ws that]
    by (simp add: cross_delay_nth minus_npfloat_def)
  from ph dl show ?thesis by blast
qed

section \<open>Lemmas on the correlation matrix\<close>

lemma corr_coef_matrix_diagonal:
  "i < m \<Longrightarrow> corr_coef_matrix m Qn cp ! i ! i
     = alpha_sum_diagonal Qn cp i
         / (np_sqrt (alpha_sum_diagonal Qn cp i) * np_sqrt (alpha_sum_diagonal Qn cp i))"
  by (simp add: corr_coef_matrix_def Let_def)

lemma self_normalised: "0 < s \<Longrightarrow> Fin s / (np_sqrt (Fin s) * np_sqrt (Fin s)) = Fin 1"
  by simp

lemma four_over_sqrt_four_pi: "4 / sqrt (4 * pi) \<noteq> 1"
proof
  assume "4 / sqrt (4 * pi) = 1"
  then have "sqrt (4 * pi) = 4"
    by (simp add: field_simps)
  then have "(sqrt (4 * pi))\<^sup>2 = 4\<^sup>2"
    by simp
  then have "pi = 4"
    by simp
  with pi_less_4 show False
    by simp
qed

lemma alpha_one_channel_store:
  "alpha_sum_diagonal 1 (get_cross_params 1 1 1 one_channel_store) 0 = Fin (4 / sqrt (4 * pi))"
  by (simp add: alpha_sum_diagonal_def alpha_def get_cross_params_def one_channel_store_def
      covariance_ij_def magnitude_ij_def column_def np_sum_def minus_npfloat_def)

section \<open>The claims on the cross parameters\<close>

text \<open>
  Claim C1 as stated fails. In \<open>degenerate_store\<close> both channels of the component have
  variance zero; the claim asks for cross-covariance \<open>0\<close> and for the average of the two
  means \<open>1\<close> and \<open>3\<close> as cross-mean, with no \<open>NaN\<close> in the result. The code divides zero
  by zero for both.
\<close>

theorem degenerate_variance_counterexample:
  "cross_covariance (get_cross_params 2 1 1 degenerate_store) ! 0 ! 1 ! 0 ! 0 = NaN \<and>
   cross_covariance (get_cross_params 2 1 1 degenerate_store) ! 0 ! 1 ! 0 ! 0 \<noteq> Fin 0 \<and>
   cross_mean (get_cross_params 2 1 1 degenerate_store) ! 0 ! 1 ! 0 ! 0 = NaN \<and>
   cross_mean (get_cross_params 2 1 1 degenerate_store) ! 0 ! 1 ! 0 ! 0 \<noteq> Fin ((1 + 3) / 2)"
  by (simp add: get_cross_params_def degenerate_store_def covariance_ij_def mean_ij_def
      column_def dot_def np_sum_def)

text \<open>
  Claim C1, amended: for every component \<open>q\<close> and every ordered channel pair \<open>(i, j)\<close>
  whose variances are both zero in every input dimension (the means being numbers),
  \<^verbatim>\<open>get_cross_params\<close> applies the general formulas without a guard, and the
  cross-covariance \<open>[i, j, n, q]\<close> and the cross-mean \<open>[i, j, n, q]\<close> are \<open>NaN\<close> in every
  input dimension \<open>n\<close>.
\<close>

theorem degenerate_variance_is_unguarded:
  assumes "well_shaped_store m d Qn ps" "q < Qn" "i < m" "j < m"
    and "\<forall>n<d. variance (ps ! q) ! n ! i = Fin 0 \<and> variance (ps ! q) ! n ! j = Fin 0"
    and "\<forall>n<d. mean (ps ! q) ! n ! i = Fin (mi n) \<and> mean (ps ! q) ! n ! j = Fin (mj n)"
  shows "\<forall>n<d. cross_covariance (get_cross_params m d Qn ps) ! i ! j ! n ! q = NaN \<and>
               cross_mean (get_cross_params m d Qn ps) ! i ! j ! n ! q = NaN"
proof (intro allI impI)
  fix n assume n: "n < d"
  let ?c = "ps ! q"
  have ws: "well_shaped m d ?c"
    using assms(1,2) by (rule well_shaped_storeD)
  then have len: "length (variance ?c) = d" "length (mean ?c) = d"
    by (simp_all add: well_shaped_def)
  have cov: "covariance_ij ?c i j ! n = NaN"
    using n len assms(5) by (simp add: covariance_ij_nth)
  have "mean_ij ?c i j ! n
          = Fin ((\<Sum>k<d. 0 * mj k) + (\<Sum>k<d. 0 * mi k)) / Fin (0 + 0)"
    using len n assms(5,6) by (intro mean_ij_Fin) simp_all
  then have mean: "mean_ij ?c i j ! n = NaN"
    by simp
  show "cross_covariance (get_cross_params m d Qn ps) ! i ! j ! n ! q = NaN \<and>
        cross_mean (get_cross_params m d Qn ps) ! i ! j ! n ! q = NaN"
    using assms(2-4) n cov mean by (simp add: cross_covariance_nth cross_mean_nth)
qed

theorem degenerate_variance_is_unguarded_witness:
  "well_shaped_store 2 1 1 degenerate_store \<and>
   cross_covariance (get_cross_params 2 1 1 degenerate_store) ! 1 ! 0 ! 0 ! 0 = NaN \<and>
   cross_mean (get_cross_params 2 1 1 degenerate_store) ! 1 ! 0 ! 0 ! 0 = NaN"
  using degenerate_variance_is_unguarded [of 2 1 1 degenerate_store 0 1 0 "\<lambda>n. 3" "\<lambda>n. 1"]
    well_shaped_degenerate_store
  by (simp add: degenerate_store_def)

text \<open>
  Claim C2 fails on the code. The claim gives the cross-mean of channels \<open>i\<close> and \<open>j\<close> in
  input dimension \<open>n\<close> as \<open>(variance_i[n] * mean_j[n] + variance_j[n] * mean_i[n]) / sv[n]\<close>.
  The code forms the numerator with \<^verbatim>\<open>dot\<close>, the inner product over all input dimensions.
  In \<open>two_dim_store\<close>, for channels \<open>0\<close> and \<open>1\<close>, the claim gives \<open>(1 * 5 + 3 * 1) / 4 = 2\<close>
  in dimension \<open>0\<close> and \<open>(1 * 7 + 1 * 3) / 2 = 5\<close> in dimension \<open>1\<close>; the code returns
  \<open>18 / 4\<close> and \<open>18 / 2\<close>.
\<close>

theorem cross_mean_mixes_input_dimensions:
  "cross_mean (get_cross_params 2 2 1 two_dim_store) ! 0 ! 1 ! 0 ! 0 = Fin (9 / 2) \<and>
   Fin (9 / 2) \<noteq> Fin ((1 * 5 + 3 * 1) / (1 + 3)) \<and>
   cross_mean (get_cross_params 2 2 1 two_dim_store) ! 0 ! 1 ! 1 ! 0 = Fin 9 \<and>
   Fin 9 \<noteq> Fin ((1 * 7 + 1 * 3) / (1 + 1))"
  by (simp add: get_cross_params_def two_dim_store_def mean_ij_def column_def dot_def np_sum_def)

text \<open>
  Claim C3 as stated fails. The claim gives channel \<open>j\<close>'s phase minus channel \<open>i\<close>'s, and
  the same for the delay. In \<open>degenerate_store\<close> the phases are \<open>0\<close> and \<open>1\<close> and the delays
  \<open>0\<close> and \<open>2\<close>: for \<open>(i, j) = (0, 1)\<close> the claim gives \<open>1\<close> and \<open>2\<close>, the code \<open>- 1\<close> and
  \<open>- 2\<close>.
\<close>

theorem cross_phase_sign_counterexample:
  "cross_phase (get_cross_params 2 1 1 degenerate_store) ! 0 ! 1 ! 0 = Fin (- 1) \<and>
   cross_phase (get_cross_params 2 1 1 degenerate_store) ! 0 ! 1 ! 0
     \<noteq> phase (degenerate_store ! 0) ! 1 - phase (degenerate_store ! 0) ! 0 \<and>
   cross_delay (get_cross_params 2 1 1 degenerate_store) ! 0 ! 1 ! 0 ! 0 = Fin (- 2) \<and>
   cross_delay (get_cross_params 2 1 1 degenerate_store) ! 0 ! 1 ! 0 ! 0
     \<noteq> delay (degenerate_store ! 0) ! 0 ! 1 - delay (degenerate_store ! 0) ! 0 ! 0"
  by (simp add: get_cross_params_def degenerate_store_def subtract_outer_def minus_npfloat_def)

text \<open>
  Claim C3, amended: for every component \<open>q\<close>, every ordered channel pair \<open>(i, j)\<close> and
  every input dimension \<open>n\<close>, the cross-phase \<open>[i, j, q]\<close> is channel \<open>i\<close>'s phase minus
  channel \<open>j\<close>'s phase, and the cross-delay \<open>[i, j, n, q]\<close> is channel \<open>i\<close>'s delay minus
  channel \<open>j\<close>'s delay in dimension \<open>n\<close>.
\<close>

theorem cross_phase_and_delay_are_i_minus_j:
  assumes "well_shaped_store m d Qn ps" "q < Qn" "i < m" "j < m"
  shows "cross_phase (get_cross_params m d Qn ps) ! i ! j ! q
           = phase (ps ! q) ! i - phase (ps ! q) ! j \<and>
         (\<forall>n<d. cross_delay (get_cross_params m d Qn ps) ! i ! j ! n ! q
           = delay (ps ! q) ! n ! i - delay (ps ! q) ! n ! j)"
proof -
  have ws: "well_shaped m d (ps ! q)"
    using assms(1,2) by (rule well_shaped_storeD)
  then have "length (phase (ps ! q)) = m"
    by (simp add: well_shaped_def)
  then have ph: "cross_phase (get_cross_params m d Qn ps) ! i ! j ! q
           = phase (ps ! q) ! i - phase (ps ! q) ! j"
    using assms(2-4) by (simp add: cross_phase_nth)
  have "cross_delay (get_cross_params m d Qn ps) ! i ! j ! n ! q
           = delay (ps ! q) ! n ! i - delay (ps ! q) ! n ! j" if "n < d" for n
    using assms(2-4) that well_shaped_rows(3) [OF ws that] by (simp add: cross_delay_nth)
  with ph show ?thesis by blast
qed

theorem cross_phase_and_delay_are_i_minus_j_witness:
  "well_shaped_store 2 2 1 two_dim_store \<and>
   cross_phase (get_cross_params 2 2 1 two_dim_store) ! 0 ! 1 ! 0 = Fin (0 - 1) \<and>
   cross_delay (get_cross_params 2 2 1 two_dim_store) ! 0 ! 1 ! 1 ! 0 = Fin (1 - 4)"
  using cross_phase_and_delay_are_i_minus_j [of 2 2 1 two_dim_store 0 0 1]
    well_shaped_two_dim_store
  by (simp add: two_dim_store_def minus_npfloat_def)

text \<open>
  Claim C4: for every component \<open>q\<close> and every ordered channel pair \<open>(i, j)\<close>, in
  particular where \<open>sv = variance_i + variance_j\<close> is nonzero in every input dimension,
  the cross-covariance \<open>[i, j, n, q]\<close> is \<open>2 * (variance_i[n] * variance_j[n]) / sv[n]\<close>
  in every input dimension \<open>n\<close>, and the cross-magnitude \<open>[i, j, q]\<close> is
  \<open>magnitude_i * magnitude_j * exp (- 1/4 * s)\<close>, where \<open>s\<close> is the sum over the input
  dimensions \<open>n\<close> of \<open>(mean_i[n] - mean_j[n])\<^sup>2 / sv[n]\<close>. The operations are those of
  the arrays, applied in the order of the code.
\<close>

theorem cross_covariance_and_magnitude_formula:
  assumes "well_shaped_store m d Qn ps" "q < Qn" "i < m" "j < m"
  shows "(\<forall>n<d. cross_covariance (get_cross_params m d Qn ps) ! i ! j ! n ! q
                  = Fin 2 * (variance (ps ! q) ! n ! i * variance (ps ! q) ! n ! j)
                      / (variance (ps ! q) ! n ! i + variance (ps ! q) ! n ! j)) \<and>
         cross_magnitude (get_cross_params m d Qn ps) ! i ! j ! q
           = magnitude (ps ! q) ! i * magnitude (ps ! q) ! j
               * np_exp (Fin (- 1 / 4)
                   * np_sum (map (\<lambda>n. (mean (ps ! q) ! n ! i - mean (ps ! q) ! n ! j)
                                          * (mean (ps ! q) ! n ! i - mean (ps ! q) ! n ! j)
                                        / (variance (ps ! q) ! n ! i + variance (ps ! q) ! n ! j))
                             [0..<d]))"
proof -
  let ?c = "ps ! q"
  have ws: "well_shaped m d ?c"
    using assms(1,2) by (rule well_shaped_storeD)
  then have len: "length (variance ?c) = d" "length (mean ?c) = d"
    by (simp_all add: well_shaped_def)
  have cov: "cross_covariance (get_cross_params m d Qn ps) ! i ! j ! n ! q
                  = Fin 2 * (variance ?c ! n ! i * variance ?c ! n ! j)
                      / (variance ?c ! n ! i + variance ?c ! n ! j)" if "n < d" for n
    using that assms(2-4) len by (simp add: cross_covariance_nth covariance_ij_nth)
  have "cross_magnitude (get_cross_params m d Qn ps) ! i ! j ! q = magnitude_ij ?c i j"
    using assms(2-4) by (simp add: cross_magnitude_nth)
  also note magnitude_ij_formula [OF len, of i j]
  finally show ?thesis
    using cov by blast
qed

theorem cross_covariance_and_magnitude_formula_witness:
  "well_shaped_store 2 2 1 equal_means_store \<and>
   cross_covariance (get_cross_params 2 2 1 equal_means_store) ! 0 ! 1 ! 0 ! 0 = Fin (3 / 2) \<and>
   cross_covariance (get_cross_params 2 2 1 equal_means_store) ! 0 ! 1 ! 1 ! 0 = Fin 1 \<and>
   cross_magnitude (get_cross_params 2 2 1 equal_means_store) ! 0 ! 1 ! 0 = Fin 6"
  using cross_covariance_and_magnitude_formula [of 2 2 1 equal_means_store 0 0 1]
    well_shaped_equal_means_store
  by (simp add: equal_means_store_def numeral_2_eq_2 less_Suc_eq np_sum_def minus_npfloat_def upt_rec)

text \<open>
  Claim C5 fails on the code. The diagonal identity asks that the cross-mean \<open>[i, i, :, q]\<close>
  be the mean of channel \<open>i\<close>. In \<open>two_dim_store\<close> channel \<open>0\<close> has variance \<open>1\<close> in both
  input dimensions and the means \<open>1\<close> and \<open>3\<close>; the code returns \<open>4\<close> in both dimensions,
  the inner product \<open>1 * 1 + 1 * 3\<close> taken twice and divided by \<open>1 + 1\<close>.
\<close>

theorem diagonal_mean_is_not_channel_mean:
  "cross_mean (get_cross_params 2 2 1 two_dim_store) ! 0 ! 0 ! 0 ! 0 = Fin 4 \<and>
   mean (two_dim_store ! 0) ! 0 ! 0 = Fin 1 \<and>
   cross_mean (get_cross_params 2 2 1 two_dim_store) ! 0 ! 0 ! 1 ! 0 = Fin 4 \<and>
   mean (two_dim_store ! 0) ! 1 ! 0 = Fin 3"
  by (simp add: get_cross_params_def two_dim_store_def mean_ij_def column_def dot_def np_sum_def)

section \<open>The claim on the correlation matrix\<close>

text \<open>
  Claim C6 as stated fails. In \<open>one_channel_store\<close> the only diagonal entry of the
  cross-covariance is \<open>2\<close> and that of the cross-magnitude is \<open>4\<close>, so the sum of
  \<open>alpha\<close> over the one component is \<open>4 / sqrt (2 * pi * 2)\<close>, a number above \<open>1.1\<close>.
  The diagonal entry of the correlation matrix is that sum divided by the product of its
  two square roots, which is not the sum.
\<close>

theorem correlation_diagonal_counterexample:
  "plot_correlations 1 1 1 one_channel_store ! 0 ! 0
     \<noteq> np_sum (map (\<lambda>q. alpha (get_cross_params 1 1 1 one_channel_store) 0 0 q) [0..<1])"
proof -
  have a: "alpha_sum_diagonal 1 (get_cross_params 1 1 1 one_channel_store) 0 = Fin (4 / sqrt (4 * pi))"
    by (rule alpha_one_channel_store)
  have pos: "0 < 4 / sqrt (4 * pi)"
    by simp
  have "plot_correlations 1 1 1 one_channel_store ! 0 ! 0
          = Fin (4 / sqrt (4 * pi)) / (np_sqrt (Fin (4 / sqrt (4 * pi))) * np_sqrt (Fin (4 / sqrt (4 * pi))))"
    by (simp only: plot_correlations_def corr_coef_matrix_diagonal [OF zero_less_one] a)
  also have "\<dots> = Fin 1"
    using pos by (rule self_normalised)
  finally have 1: "plot_correlations 1 1 1 one_channel_store ! 0 ! 0 = Fin 1" .
  have 2: "np_sum (map (\<lambda>q. alpha (get_cross_params 1 1 1 one_channel_store) 0 0 q) [0..<1])
     = Fin (4 / sqrt (4 * pi))"
    using a by (simp only: alpha_sum_diagonal_def)
  have 3: "Fin 1 \<noteq> Fin (4 / sqrt (4 * pi))"
    using four_over_sqrt_four_pi by simp
  from 1 2 3 show ?thesis by simp
qed

text \<open>
  Claim C6, amended: every diagonal entry \<open>[i, i]\<close> of the correlation matrix is
  \<open>S / (sqrt S * sqrt S)\<close>, where \<open>S\<close> is the sum over the components \<open>q\<close> of
  \<open>alpha = magnitude[i, i, q] / sqrt (2 * pi * covariance[i, i, 0, q])\<close>, the
  cross-magnitude and the cross-covariance in input dimension \<open>0\<close> of channel \<open>i\<close> with
  itself: the division by the norm is applied to the diagonal as well. The store is well
  shaped and has at least one input dimension.
\<close>

theorem correlation_diagonal_is_normalised:
  assumes "well_shaped_store m d Qn ps" "0 < d" "i < m"
  shows "(\<exists>S. S = np_sum (map (\<lambda>q. cross_magnitude (get_cross_params m d Qn ps) ! i ! i ! q
                                    / np_sqrt (Fin 2 * Fin pi
                                        * cross_covariance (get_cross_params m d Qn ps) ! i ! i ! 0 ! q))
                           [0..<Qn]) \<and>
              plot_correlations m d Qn ps ! i ! i = S / (np_sqrt S * np_sqrt S)) \<and>
         (\<forall>q<Qn. cross_magnitude (get_cross_params m d Qn ps) ! i ! i ! q = magnitude_ij (ps ! q) i i \<and>
                  cross_covariance (get_cross_params m d Qn ps) ! i ! i ! 0 ! q
                    = Fin 2 * (variance (ps ! q) ! 0 ! i * variance (ps ! q) ! 0 ! i)
                        / (variance (ps ! q) ! 0 ! i + variance (ps ! q) ! 0 ! i))"
proof -
  have entry: "plot_correlations m d Qn ps ! i ! i
          = alpha_sum_diagonal Qn (get_cross_params m d Qn ps) i
              / (np_sqrt (alpha_sum_diagonal Qn (get_cross_params m d Qn ps) i)
                   * np_sqrt (alpha_sum_diagonal Qn (get_cross_params m d Qn ps) i))"
    using assms(3) by (simp add: plot_correlations_def corr_coef_matrix_diagonal)
  have S: "alpha_sum_diagonal Qn (get_cross_params m d Qn ps) i
          = np_sum (map (\<lambda>q. cross_magnitude (get_cross_params m d Qn ps) ! i ! i ! q
                                    / np_sqrt (Fin 2 * Fin pi
                                        * cross_covariance (get_cross_params m d Qn ps) ! i ! i ! 0 ! q))
                           [0..<Qn])"
    by (simp add: alpha_sum_diagonal_def alpha_def)
  have read: "cross_magnitude (get_cross_params m d Qn ps) ! i ! i ! q = magnitude_ij (ps ! q) i i \<and>
                  cross_covariance (get_cross_params m d Qn ps) ! i ! i ! 0 ! q
                    = Fin 2 * (variance (ps ! q) ! 0 ! i * variance (ps ! q) ! 0 ! i)
                        / (variance (ps ! q) ! 0 ! i + variance (ps ! q) ! 0 ! i)" if "q < Qn" for q
  proof -
    have "well_shaped m d (ps ! q)"
      using assms(1) that by (rule well_shaped_storeD)
    then have "0 < length (variance (ps ! q))"
      using assms(2) by (simp add: well_shaped_def)
    then show ?thesis
      using assms(2,3) that
      by (simp add: cross_magnitude_nth cross_covariance_nth covariance_ij_nth)
  qed
  from entry S read show ?thesis
    by (simp only: simp_thms) simp
qed

theorem correlation_diagonal_is_normalised_witness:
  "well_shaped_store 1 1 1 one_channel_store \<and>
   plot_correlations 1 1 1 one_channel_store ! 0 ! 0
     = Fin 4 / np_sqrt (Fin 2 * Fin pi * Fin 2)
         / (np_sqrt (Fin 4 / np_sqrt (Fin 2 * Fin pi * Fin 2))
              * np_sqrt (Fin 4 / np_sqrt (Fin 2 * Fin pi * Fin 2))) \<and>
   cross_magnitude (get_cross_params 1 1 1 one_channel_store) ! 0 ! 0 ! 0 = Fin 4 \<and>
   cross_covariance (get_cross_params 1 1 1 one_channel_store) ! 0 ! 0 ! 0 ! 0 = Fin 2"
  using correlation_diagonal_is_normalised [of 1 1 1 one_channel_store 0]
    well_shaped_one_channel_store
  by (simp add: one_channel_store_def magnitude_ij_def column_def np_sum_def minus_npfloat_def)

section \<open>The claims on the parameter store\<close>

text \<open>
  Claim C7 fails on the code. The claim is that constructing the MOSM model with \<open>Q\<close>
  components succeeds and leaves a store of \<open>Q\<close> components, so that \<^verbatim>\<open>set_param\<close> works
  for every \<open>q\<close> in \<open>[0, Q)\<close>. \<^verbatim>\<open>MOSM.__init__\<close> calls \<^verbatim>\<open>model.__init__\<close> without its
  required argument \<^verbatim>\<open>Q\<close> and raises, whatever the rest of the constructor does; and
  \<^verbatim>\<open>model.__init__\<close>, called with all its arguments, leaves \<^verbatim>\<open>self.params\<close> empty, so that
  \<^verbatim>\<open>set_param\<close> raises for every component index.
\<close>

theorem constructed_store_has_no_components:
  "MOSM_init build dataset Q_arg name_arg = Inl TypeError \<and>
   (\<exists>self. model_init (Some name_arg) (Some dataset) (Some Q_arg) = Inr self \<and>
      params self = [] \<and> set_param self q key val = Inl (ComponentDoesNotExist q))"
  by (auto simp: MOSM_init_def model_init_def set_param_def)

text \<open>
  Claim C8 as stated fails. The claim is that \<^verbatim>\<open>set_param\<close> raises exactly when \<open>q\<close> is
  outside \<open>[0, Q)\<close> or the key is not one of the six recognised names, and that storing
  the noise vector at index \<open>Q\<close> fails. In \<open>store_with_noise\<close>, where \<open>Q = 1\<close> and the
  store has a second entry for the noise, \<^verbatim>\<open>set_param(1, 'noise', ...)\<close> does not raise.
\<close>

theorem set_param_index_Q_counterexample:
  "\<not> (isl (set_param store_with_noise 1 ''noise'' [2]) \<longleftrightarrow>
       (1::int) < 0 \<or> Q store_with_noise \<le> 1 \<or>
       ''noise'' \<notin> {''magnitude'', ''mean'', ''variance'', ''phase'', ''delay'', ''noise''})"
  by (simp add: store_with_noise_def set_param_def)

text \<open>
  Claim C8, amended: \<^verbatim>\<open>set_param(q, key, value)\<close> raises exactly when \<open>q\<close> is outside
  \<open>[0, len(self.params))\<close> or \<open>key\<close> is not already a key of the dictionary
  \<^verbatim>\<open>self.params[q]\<close>; for a valid \<open>q\<close> and \<open>key\<close> it stores the value under that key of
  that component and changes nothing else. Storing the noise vector at index \<open>Q\<close>
  succeeds exactly when the store has an entry at index \<open>Q\<close> with the key \<^verbatim>\<open>noise\<close>.
\<close>

theorem set_param_guard_is_store_length:
  "(isl (set_param self q key val) \<longleftrightarrow>
      q < 0 \<or> int (length (params self)) \<le> q \<or> key \<notin> dom (params self ! nat q)) \<and>
   (\<forall>self'. set_param self q key val = Inr self' \<longrightarrow>
      length (params self') = length (params self) \<and>
      (params self' ! nat q) key = Some val \<and>
      (\<forall>k. k \<noteq> key \<longrightarrow> (params self' ! nat q) k = (params self ! nat q) k) \<and>
      (\<forall>p. p \<noteq> nat q \<longrightarrow> params self' ! p = params self ! p) \<and>
      self'\<lparr>params := params self\<rparr> = self)"
  by (auto simp: set_param_def domIff)

theorem set_param_guard_is_store_length_witness:
  "\<not> isl (set_param store_with_noise 1 ''noise'' [2]) \<and>
   isl (set_param store_with_noise 2 ''noise'' [2]) \<and>
   isl (set_param store_with_noise 0 ''noise'' [2]) \<and>
   (\<exists>self'. set_param store_with_noise 1 ''noise'' [2] = Inr self' \<and>
      (params self' ! 1) ''noise'' = Some [2] \<and> params self' ! 0 = params store_with_noise ! 0)"
  using set_param_guard_is_store_length [of store_with_noise 1 "''noise''" "[2]"]
        set_param_guard_is_store_length [of store_with_noise 2 "''noise''" "[2]"]
        set_param_guard_is_store_length [of store_with_noise 0 "''noise''" "[2]"]
  by (simp add: store_with_noise_def set_param_def)

text \<open>
  Claim C9: for every model state, also one in which the key is fixed already,
  \<^verbatim>\<open>fix_params(key)\<close> followed by \<^verbatim>\<open>unfix_params(key)\<close> does not raise and restores the
  set of fixed parameter names (and the number of times each name is listed), leaving
  every other attribute as it was; so the loop of \<^verbatim>\<open>build\<close> over the fixed names turns the
  same parameters of any kernel untrainable as before. When the key was not fixed before,
  the list itself is restored; when it was, the order of the list may change.
\<close>

theorem fix_then_unfix_restores_fixed_set:
  "\<exists>self'. unfix_params (fix_params self key) key = Inr self' \<and>
     set (fixed_params self') = set (fixed_params self) \<and>
     mset (fixed_params self') = mset (fixed_params self) \<and>
     self'\<lparr>fixed_params := fixed_params self\<rparr> = self \<and>
     (key \<notin> set (fixed_params self) \<longrightarrow> self' = self) \<and>
     (\<forall>kern kern'. apply_fixed_params (fixed_params self') kern = Inr kern'
         \<longleftrightarrow> apply_fixed_params (fixed_params self) kern = Inr kern')"
proof -
  let ?self' = "self\<lparr>fixed_params := remove1 key (fixed_params self @ [key])\<rparr>"
  have run: "unfix_params (fix_params self key) key = Inr ?self'"
    by (simp add: unfix_params_def fix_params_def)
  have same_set: "set (fixed_params ?self') = set (fixed_params self)"
    by (simp add: set_remove1_append_self)
  have same_mset: "mset (fixed_params ?self') = mset (fixed_params self)"
    by simp
  have rest: "?self'\<lparr>fixed_params := fixed_params self\<rparr> = self"
    by simp
  have fresh: "key \<notin> set (fixed_params self) \<longrightarrow> ?self' = self"
    by (simp add: remove1_append)
  have loop: "\<forall>kern kern'. apply_fixed_params (fixed_params ?self') kern = Inr kern'
         \<longleftrightarrow> apply_fixed_params (fixed_params self) kern = Inr kern'"
    by (simp only: apply_fixed_params_Inr same_set) simp
  from run same_set same_mset rest fresh loop show ?thesis
    by blast
qed

theorem fix_then_unfix_restores_fixed_set_witness:
  "unfix_params (fix_params store_with_fixed ''variance'') ''variance''
     = Inr (store_with_fixed\<lparr>fixed_params := [''mean'', ''variance'']\<rparr>) \<and>
   set [''mean'', ''variance''] = set (fixed_params store_with_fixed) \<and>
   ''delay'' \<notin> set (fixed_params store_with_fixed) \<and>
   unfix_params (fix_params store_with_fixed ''delay'') ''delay'' = Inr store_with_fixed"
  using fix_then_unfix_restores_fixed_set [of store_with_fixed "''variance''"]
        fix_then_unfix_restores_fixed_set [of store_with_fixed "''delay''"]
  by (auto simp: unfix_params_def fix_params_def store_with_fixed_def)

section \<open>The claim on the data set\<close>

text \<open>
  Claim C10: for every data set with at least one channel and every integer index with
  \<open>- channelCount \<le> index < 0\<close>, \<^verbatim>\<open>get(index)\<close> does not raise and returns the channel at
  position \<open>channelCount + index\<close>; for an integer index \<open>\<ge> channelCount\<close> it raises.
\<close>

theorem get_negative_index_wraps:
  "(channels \<noteq> [] \<and> - int (length channels) \<le> k \<and> k < 0 \<longrightarrow>
      nat (int (length channels) + k) < length channels \<and>
      get channels (IntIndex k) = Inr (channels ! nat (int (length channels) + k))) \<and>
   (int (length channels) \<le> k \<longrightarrow> get channels (IntIndex k) = Inl (ChannelDoesNotExist k))"
  by (auto simp: get_def subscript_def)

theorem get_negative_index_wraps_witness:
  "two_channels \<noteq> [] \<and>
   get two_channels (IntIndex (- 1)) = Inr \<lparr>name = ''B'', payload = ()\<rparr> \<and>
   get two_channels (IntIndex (- 2)) = Inr \<lparr>name = ''A'', payload = ()\<rparr> \<and>
   get two_channels (IntIndex 2) = Inl (ChannelDoesNotExist 2)"
  using get_negative_index_wraps [of two_channels "- 1"]
        get_negative_index_wraps [of two_channels "- 2"]
        get_negative_index_wraps [of two_channels "2"]
  by (simp add: two_channels_def)

end
